theory Spec2Isabelle
  imports Main "HOL-Library.AList"
begin

section \<open>Python values and errors\<close>

text \<open>
  The widgets of \<^verbatim>\<open>smol_k8s_lab/tui/app_widgets/input_widgets.py\<close> read values that
  come from a YAML document. A value is one of Python's \<^verbatim>\<open>None\<close>, a bool, an int, a
  \<^verbatim>\<open>str\<close>, a \<^verbatim>\<open>list\<close> (ruamel's \<^verbatim>\<open>CommentedSeq\<close> is a subclass of \<^verbatim>\<open>list\<close>) or a
  \<^verbatim>\<open>dict\<close>. A dict is an association list in insertion order. Text is a \<open>string\<close>;
  the two literals of the source that hold an emoji are spelled as their UTF-8 bytes.
\<close>

datatype yaml =
    YNull
  | YBool bool
  | YInt int
  | YStr string
  | YSeq "yaml list"
  | YMap "(string \<times> yaml) list"

datatype error =
    KeyError string
  | TypeError
  | IndexError
  | UnboundLocalError string
  | AttributeError
  | NoMatches
  | SecretError string

datatype outcome = Returned | Raised error

text \<open>Python's truth value of an object, as \<^verbatim>\<open>if value:\<close> tests it.\<close>

fun truth :: "yaml \<Rightarrow> bool" where
  "truth YNull = False"
| "truth (YBool b) = b"
| "truth (YInt i) = (i \<noteq> 0)"
| "truth (YStr s) = (s \<noteq> [])"
| "truth (YSeq xs) = (xs \<noteq> [])"
| "truth (YMap kvs) = (kvs \<noteq> [])"

text \<open>\<^verbatim>\<open>d[k]\<close>: a missing key raises KeyError; an object that is no dict cannot be
  indexed by a \<^verbatim>\<open>str\<close>.\<close>

fun getitem :: "yaml \<Rightarrow> string \<Rightarrow> error + yaml" where
  "getitem (YMap kvs) k = (case map_of kvs k of None \<Rightarrow> Inl (KeyError k) | Some v \<Rightarrow> Inr v)"
| "getitem YNull k = Inl TypeError"
| "getitem (YBool b) k = Inl TypeError"
| "getitem (YInt i) k = Inl TypeError"
| "getitem (YStr s) k = Inl TypeError"
| "getitem (YSeq xs) k = Inl TypeError"

text \<open>\<^verbatim>\<open>d[k] = v\<close>: an existing key keeps its place, a new key goes to the end.\<close>

fun setitem :: "yaml \<Rightarrow> string \<Rightarrow> yaml \<Rightarrow> error + yaml" where
  "setitem (YMap kvs) k v = Inr (YMap (AList.update k v kvs))"
| "setitem YNull k v = Inl TypeError"
| "setitem (YBool b) k v = Inl TypeError"
| "setitem (YInt i) k v = Inl TypeError"
| "setitem (YStr s) k v = Inl TypeError"
| "setitem (YSeq xs) k v = Inl TypeError"

text \<open>
  The handlers fetch a nested dict of the configuration and assign into it in place.
  The document is a tree here, so the assignment is the replacement of the object at
  the end of the path of keys that led to it.
\<close>

fun getpath :: "yaml \<Rightarrow> string list \<Rightarrow> error + yaml" where
  "getpath doc [] = Inr doc"
| "getpath doc (k # ks) = (case getitem doc k of Inl e \<Rightarrow> Inl e | Inr sub \<Rightarrow> getpath sub ks)"

fun replace_at :: "string list \<Rightarrow> yaml \<Rightarrow> (string \<times> yaml) list \<Rightarrow> (string \<times> yaml) list"
  and store_at :: "string list \<Rightarrow> yaml \<Rightarrow> yaml \<Rightarrow> yaml" where
  "replace_at ks new [] = []"
| "replace_at [] new (kv # kvs) = kv # kvs"
| "replace_at (k # ks) new ((k', v) # kvs) =
     (if k' = k then (k', store_at ks new v) # kvs else (k', v) # replace_at (k # ks) new kvs)"
| "store_at [] new doc = new"
| "store_at (k # ks) new (YMap kvs) = YMap (replace_at (k # ks) new kvs)"
| "store_at (k # ks) new YNull = YNull"
| "store_at (k # ks) new (YBool b) = YBool b"
| "store_at (k # ks) new (YInt i) = YInt i"
| "store_at (k # ks) new (YStr s) = YStr s"
| "store_at (k # ks) new (YSeq xs) = YSeq xs"

section \<open>Strings\<close>

text \<open>\<^verbatim>\<open>sep.join(xs)\<close> on a list of \<^verbatim>\<open>str\<close>.\<close>

fun join :: "string \<Rightarrow> string list \<Rightarrow> string" where
  "join sep [] = []"
| "join sep [x] = x"
| "join sep (x # y # ys) = x @ sep @ join sep (y # ys)"

text \<open>\<^verbatim>\<open>sep.join(xs)\<close> on a list of objects: every item must be a \<^verbatim>\<open>str\<close>.\<close>

fun str_items :: "yaml list \<Rightarrow> string list option" where
  "str_items [] = Some []"
| "str_items (YStr s # xs) = (case str_items xs of None \<Rightarrow> None | Some ys \<Rightarrow> Some (s # ys))"
| "str_items (x # xs) = None"

definition join_yaml :: "string \<Rightarrow> yaml list \<Rightarrow> error + string" where
  "join_yaml sep xs = (case str_items xs of None \<Rightarrow> Inl TypeError | Some ys \<Rightarrow> Inr (join sep ys))"

text \<open>\<^verbatim>\<open>s.replace(a, b)\<close> for one-character \<^verbatim>\<open>a\<close> and \<^verbatim>\<open>b\<close>.\<close>

definition replace_char :: "char \<Rightarrow> char \<Rightarrow> string \<Rightarrow> string" where
  "replace_char a b s = map (\<lambda>c. if c = a then b else c) s"

text \<open>\<^verbatim>\<open>s.upper()\<close> on ASCII text.\<close>

definition upper_char :: "char \<Rightarrow> char" where
  "upper_char c =
     (case map_of (zip ''abcdefghijklmnopqrstuvwxyz'' ''ABCDEFGHIJKLMNOPQRSTUVWXYZ'') c of
        None \<Rightarrow> c | Some u \<Rightarrow> u)"

definition upper :: "string \<Rightarrow> string" where
  "upper s = map upper_char s"

section \<open>The widgets\<close>

text \<open>
  Both classes keep the same attributes. The helpers imported from modules that are not
  part of that file are parameters of the model: \<open>pg\<close> stands for
  \<^verbatim>\<open>placeholder_grammar\<close>, \<open>es\<close> for \<^verbatim>\<open>extract_secret\<close> (it may raise) and \<open>csl\<close> for
  \<^verbatim>\<open>create_sanitized_list\<close>.
\<close>

record widget =
  app_name :: string
  title :: string
  inputs :: "(string \<times> yaml) list"
  tooltips :: "(string \<times> string) list"
  add_fields_button :: bool

datatype validator = Length_minimum nat

text \<open>The keyword arguments collected in \<^verbatim>\<open>input_keys\<close>; \<^verbatim>\<open>password\<close> and
  \<^verbatim>\<open>value\<close> are keys that may be missing from the dict.\<close>

record input_keys =
  ik_placeholder :: string
  ik_name :: string
  ik_id :: string
  ik_validators :: "validator list"
  ik_password :: "bool option"
  ik_value :: "yaml option"

text \<open>A row that was built: the text of the label, the arguments the \<^verbatim>\<open>Input\<close> was
  built from, its tooltip and the object that \<^verbatim>\<open>input.validate\<close> was given.\<close>

record row =
  row_label :: string
  row_input :: input_keys
  row_tooltip :: string
  row_validated :: yaml

datatype mounted = Row row | NewFieldButton

text \<open>What \<^verbatim>\<open>compose\<close> puts on the screen, the descendants in document order;
  \<^verbatim>\<open>query_one\<close> of the grid's class raises NoMatches when no grid is among them.\<close>

datatype composed = Collapsible_w string | Label_w string | Grid_w

text \<open>The application and the screen, as far as the handlers touch them: the
  configuration \<^verbatim>\<open>app.cfg\<close>, the screen's \<^verbatim>\<open>sensitive_values\<close>, the option
  \<^verbatim>\<open>app.bell_on_error\<close>, and the calls made so far to \<^verbatim>\<open>write_yaml\<close>, \<^verbatim>\<open>bell\<close>,
  \<^verbatim>\<open>notify\<close> (message, severity, title) and \<^verbatim>\<open>log\<close>.\<close>

datatype effect = WriteYaml | Bell | Notify string string string | Log string

record app_state =
  cfg :: yaml
  sensitive_values :: "(string \<times> (string \<times> string) list) list"
  bell_on_error :: bool
  effects :: "effect list"

text \<open>\<^verbatim>\<open>Input.Changed\<close>: the input's name, value and password flag and the validation
  result. \<^verbatim>\<open>Switch.Changed\<close>: the switch's name and the new value.\<close>

record input_changed =
  input_name :: string
  input_value :: string
  input_password :: bool
  is_valid :: bool
  failure_descriptions :: "string list"

record switch_changed =
  switch_name :: string
  switch_value :: bool

definition warning_title :: string where
  "warning_title = [CHR 0xE2, CHR 0x9A, CHR 0xA0, CHR 0xEF, CHR 0xB8, CHR 0x8F]
                   @ '' Input Validation Error'' @ [CHR 0x0A]"

definition recursion_notice :: string where
  "recursion_notice = [CHR 0xF0, CHR 0x9F, CHR 0x92, CHR 0xA1]
                      @ ''Make sure Argo CD directory recursion is switched on.''"

text \<open>
  The two calls into the framework. \<^verbatim>\<open>Input(**input_keys)\<close> expects a \<^verbatim>\<open>str\<close> for
  \<^verbatim>\<open>value\<close>: a missing argument and \<^verbatim>\<open>None\<close> leave the input empty, a mapping or a list
  is refused with TypeError, a bool or a number with AttributeError.
  \<^verbatim>\<open>input.validate(value)\<close> runs the validators of the input; \<^verbatim>\<open>Length\<close> takes
  \<^verbatim>\<open>len(value)\<close>, which raises TypeError for \<^verbatim>\<open>None\<close>, a bool and a number. The result
  is the error raised, if any.
\<close>

definition Input_init :: "input_keys \<Rightarrow> error option" where
  "Input_init input_keys =
     (case ik_value input_keys of
        None \<Rightarrow> None
      | Some YNull \<Rightarrow> None
      | Some (YStr s) \<Rightarrow> None
      | Some (YBool b) \<Rightarrow> Some AttributeError
      | Some (YInt i) \<Rightarrow> Some AttributeError
      | Some (YSeq xs) \<Rightarrow> Some TypeError
      | Some (YMap kvs) \<Rightarrow> Some TypeError)"

fun len :: "yaml \<Rightarrow> error + nat" where
  "len (YStr s) = Inr (length s)"
| "len (YSeq xs) = Inr (length xs)"
| "len (YMap kvs) = Inr (length kvs)"
| "len YNull = Inl TypeError"
| "len (YBool b) = Inl TypeError"
| "len (YInt i) = Inl TypeError"

definition Input_validate :: "validator list \<Rightarrow> yaml \<Rightarrow> error option" where
  "Input_validate validators val =
     (if validators = [] then None
      else (case len val of Inl e \<Rightarrow> Some e | Inr n \<Rightarrow> None))"

subsection \<open>SmolK8sLabCollapsibleInputsWidget\<close>

definition Collapsible_compose :: "widget \<Rightarrow> composed list" where
  "Collapsible_compose w = Collapsible_w (title w) # (if inputs w \<noteq> [] then [Grid_w] else [])"

definition Collapsible_generate_input_row ::
  "(string \<Rightarrow> string) \<Rightarrow> (yaml \<Rightarrow> error + yaml) \<Rightarrow> widget \<Rightarrow> string \<Rightarrow> yaml \<Rightarrow> error + row" where
  "Collapsible_generate_input_row pg es w key val =
    (let key_label = replace_char CHR ''_'' CHR '' '' key;
         placeholder_txt = pg key_label;
         input_keys = \<lparr>ik_placeholder = placeholder_txt,
                       ik_name = key,
                       ik_id = join ''-'' [app_name w, key, ''input''],
                       ik_validators = [Length_minimum 2],
                       ik_password = None,
                       ik_value = None\<rparr>
     in
     case (if truth val then
             (case val of
                YSeq xs \<Rightarrow>
                  (case (case xs of
                           [] \<Rightarrow> Inl IndexError
                         | YStr s # rest \<Rightarrow> join_yaml '', '' xs
                         | YSeq ys # rest \<Rightarrow> join_yaml '', '' ys
                         | other # rest \<Rightarrow> Inl (UnboundLocalError ''sequence_value'')) of
                     Inl e \<Rightarrow> Inl e
                   | Inr sequence_value \<Rightarrow>
                       Inr (input_keys\<lparr>ik_password := Some False,
                                       ik_value := Some (YStr sequence_value)\<rparr>,
                            YStr sequence_value))
              | YMap m \<Rightarrow>
                  (case es val of
                     Inl e \<Rightarrow> Inl e
                   | Inr secret \<Rightarrow>
                       Inr (input_keys\<lparr>ik_password := Some True, ik_value := Some secret\<rparr>,
                            secret))
              | other \<Rightarrow>
                  Inr (input_keys\<lparr>ik_password := Some False, ik_value := Some val\<rparr>, val))
           else Inr (input_keys, val)) of
       Inl e \<Rightarrow> Inl e
     | Inr (input_keys, val) \<Rightarrow>
         (case Input_init input_keys of
            Some e \<Rightarrow> Inl e
          | None \<Rightarrow>
              (let generated =
                   (case ik_password input_keys of
                      None \<Rightarrow> Inl (KeyError ''password'')
                    | Some password \<Rightarrow>
                        if password then
                          (let env_var = join ''_'' [upper (app_name w), upper key]
                           in Inr (''To avoid needing to fill in this value manually, you''
                                   @ '' can export $'' @ env_var
                                   @ '' as an environment variable.''))
                        else if key = ''s3_provider'' then
                          Inr ''Choose between minio and seaweedfs for a local s3 provider''
                        else Inr (placeholder_txt @ ''.''))
                in
                case (case map_of (tooltips w) key of
                        None \<Rightarrow> generated
                      | Some t \<Rightarrow> if t = [] then generated else Inr t) of
                  Inl e \<Rightarrow> Inl e
                | Inr tooltip \<Rightarrow>
                    (let tooltip =
                           (if app_name w = ''metallb''
                            then tooltip @ '' Be sure the ip addresses you enter already have DNS ''
                                         @ ''entries for any apps you'd like to deploy.''
                            else tooltip)
                     in case Input_validate (ik_validators input_keys) val of
                          Some e \<Rightarrow> Inl e
                        | None \<Rightarrow>
                            Inr \<lparr>row_label = key_label @ '':'',
                                 row_input = input_keys,
                                 row_tooltip = tooltip,
                                 row_validated = val\<rparr>))))"

definition Collapsible_generate_row ::
  "(string \<Rightarrow> string) \<Rightarrow> (yaml \<Rightarrow> error + yaml) \<Rightarrow> widget \<Rightarrow> string \<Rightarrow> yaml \<Rightarrow> error + row" where
  "Collapsible_generate_row pg es w key val = Collapsible_generate_input_row pg es w key val"

text \<open>The loop of \<^verbatim>\<open>on_mount\<close> over \<^verbatim>\<open>self.inputs.items()\<close>: the rows mounted so far stay
  mounted when a later row raises.\<close>

fun Collapsible_mount_rows ::
  "(string \<Rightarrow> string) \<Rightarrow> (yaml \<Rightarrow> error + yaml) \<Rightarrow> widget \<Rightarrow> (string \<times> yaml) list
     \<Rightarrow> mounted list \<Rightarrow> outcome \<times> mounted list" where
  "Collapsible_mount_rows pg es w [] grid = (Returned, grid)"
| "Collapsible_mount_rows pg es w ((key, val) # items) grid =
     (case Collapsible_generate_row pg es w key val of
        Inl e \<Rightarrow> (Raised e, grid)
      | Inr r \<Rightarrow> Collapsible_mount_rows pg es w items (grid @ [Row r]))"

definition Collapsible_on_mount ::
  "(string \<Rightarrow> string) \<Rightarrow> (yaml \<Rightarrow> error + yaml) \<Rightarrow> widget \<Rightarrow> outcome \<times> mounted list" where
  "Collapsible_on_mount pg es w =
    (if Grid_w \<notin> set (Collapsible_compose w) then (Raised NoMatches, [])
     else
       (case (if inputs w \<noteq> [] then Collapsible_mount_rows pg es w (inputs w) []
              else (Returned, [])) of
          (Raised e, grid) \<Rightarrow> (Raised e, grid)
        | (Returned, grid) \<Rightarrow>
            if add_fields_button w then (Returned, grid @ [NewFieldButton])
            else (Returned, grid)))"

text \<open>\<^verbatim>\<open>input_validation\<close>, the handler of \<^verbatim>\<open>Input.Changed\<close>. The result is how the
  handler ended and the state it left behind.\<close>

definition Collapsible_input_validation ::
  "(string \<Rightarrow> string list) \<Rightarrow> widget \<Rightarrow> input_changed \<Rightarrow> app_state \<Rightarrow> outcome \<times> app_state" where
  "Collapsible_input_validation csl w event s =
    (if is_valid event then
       (let values_path = [''apps'', app_name w, ''init'', ''values''] in
        case getpath (cfg s) values_path of
          Inl e \<Rightarrow> (Raised e, s)
        | Inr parent_yaml \<Rightarrow>
            (let password = input_password event in
             case (if app_name w \<in> set [''metallb'', ''vouch''] \<or> CHR '','' \<in> set (input_value event)
                   then setitem parent_yaml (input_name event)
                          (YSeq (map YStr (csl (input_value event))))
                   else if \<not> password
                        then setitem parent_yaml (input_name event) (YStr (input_value event))
                        else Inr parent_yaml) of
               Inl e \<Rightarrow> (Raised e, s)
             | Inr parent_yaml' \<Rightarrow>
                 (let s1 = s\<lparr>cfg := store_at values_path parent_yaml' (cfg s)\<rparr> in
                  if \<not> input_password event then
                    (Returned, s1\<lparr>effects := effects s1 @ [WriteYaml]\<rparr>)
                  else
                    (let s2 = s1\<lparr>effects := effects s1 @
                                 [Log (''saving special value for '' @ input_name event
                                       @ '' to screen cache'')]\<rparr>
                     in case map_of (sensitive_values s2) (app_name w) of
                          None \<Rightarrow> (Raised (KeyError (app_name w)), s2)
                        | Some cache \<Rightarrow>
                            (Returned,
                             s2\<lparr>sensitive_values :=
                                  AList.update (app_name w)
                                    (AList.update (input_name event) (input_value event) cache)
                                    (sensitive_values s2)\<rparr>)))))
     else
       (let s1 = (if bell_on_error s then s\<lparr>effects := effects s @ [Bell]\<rparr> else s) in
        (Returned,
         s1\<lparr>effects := effects s1 @
              [Notify (join ''\<newline>'' (failure_descriptions event)) ''warning'' warning_title]\<rparr>)))"

text \<open>\<^verbatim>\<open>update_base_yaml_for_switch\<close>, the handler of \<^verbatim>\<open>Switch.Changed\<close>.\<close>

definition Collapsible_update_base_yaml_for_switch ::
  "widget \<Rightarrow> switch_changed \<Rightarrow> app_state \<Rightarrow> outcome \<times> app_state" where
  "Collapsible_update_base_yaml_for_switch w event s =
    (let truthy = switch_value event;
         init_path = [''apps'', app_name w, ''init''] in
     case getpath (cfg s) init_path of
       Inl e \<Rightarrow> (Raised e, s)
     | Inr init \<Rightarrow>
         (case setitem init (switch_name event) (YBool truthy) of
            Inl e \<Rightarrow> (Raised e, s)
          | Inr init' \<Rightarrow>
              (let s1 = s\<lparr>cfg := store_at init_path init' (cfg s)\<rparr>;
                   s2 = s1\<lparr>effects := effects s1 @ [WriteYaml]\<rparr> in
               if truthy \<and> switch_name event = ''create_minio_tenant''
               then (Returned,
                     s2\<lparr>effects := effects s2 @ [Notify recursion_notice ''information'' []]\<rparr>)
               else (Returned, s2))))"

subsection \<open>SmolK8sLabInputsWidget\<close>

definition Inputs_compose :: "widget \<Rightarrow> composed list" where
  "Inputs_compose w = [Label_w (title w), Grid_w]"

definition Inputs_generate_input_row ::
  "(string \<Rightarrow> string) \<Rightarrow> (yaml \<Rightarrow> error + yaml) \<Rightarrow> widget \<Rightarrow> string \<Rightarrow> yaml \<Rightarrow> error + row" where
  "Inputs_generate_input_row pg es w key val =
    (let key_label = replace_char CHR ''_'' CHR '' '' key;
         placeholder_txt = pg key_label;
         input_keys = \<lparr>ik_placeholder = placeholder_txt,
                       ik_name = key,
                       ik_id = join ''-'' [app_name w, key, ''input''],
                       ik_validators = [Length_minimum 2],
                       ik_password = Some False,
                       ik_value = None\<rparr>
     in
     case (if truth val then
             (case val of
                YSeq xs \<Rightarrow>
                  (case (case xs of
                           [] \<Rightarrow> Inl IndexError
                         | YStr s # rest \<Rightarrow> join_yaml '', '' xs
                         | YSeq ys # rest \<Rightarrow> join_yaml '', '' ys
                         | other # rest \<Rightarrow> Inl (UnboundLocalError ''sequence_value'')) of
                     Inl e \<Rightarrow> Inl e
                   | Inr sequence_value \<Rightarrow> Inr (input_keys, YStr sequence_value))
              | YMap m \<Rightarrow>
                  (case es val of
                     Inl e \<Rightarrow> Inl e
                   | Inr secret \<Rightarrow> Inr (input_keys\<lparr>ik_password := Some True\<rparr>, secret))
              | other \<Rightarrow> Inr (input_keys, val))
           else Inr (input_keys, val)) of
       Inl e \<Rightarrow> Inl e
     | Inr (input_keys, val) \<Rightarrow>
         (let input_keys = input_keys\<lparr>ik_value := Some val\<rparr> in
          case Input_init input_keys of
            Some e \<Rightarrow> Inl e
          | None \<Rightarrow>
              (let generated =
                   (case ik_password input_keys of
                      None \<Rightarrow> Inl (KeyError ''password'')
                    | Some password \<Rightarrow>
                        if password then
                          (let env_var = join ''_'' [upper (app_name w), upper key]
                           in Inr (''To avoid needing to fill in this value manually, you''
                                   @ '' can export $'' @ env_var
                                   @ '' as an environment variable.''))
                        else if key = ''s3_provider'' then
                          Inr ''Choose between minio and seaweedfs for a local s3 provider''
                        else Inr (placeholder_txt @ ''.''))
                in
                case (case map_of (tooltips w) key of
                        None \<Rightarrow> generated
                      | Some t \<Rightarrow> if t = [] then generated else Inr t) of
                  Inl e \<Rightarrow> Inl e
                | Inr tooltip \<Rightarrow>
                    (let tooltip =
                           (if app_name w = ''metallb''
                            then tooltip @ '' Be sure the ip addresses you enter already have DNS ''
                                         @ ''entries for any apps you'd like to deploy.''
                            else tooltip)
                     in case Input_validate (ik_validators input_keys) val of
                          Some e \<Rightarrow> Inl e
                        | None \<Rightarrow>
                            Inr \<lparr>row_label = key_label @ '':'',
                                 row_input = input_keys,
                                 row_tooltip = tooltip,
                                 row_validated = val\<rparr>))))"

definition Inputs_generate_row ::
  "(string \<Rightarrow> string) \<Rightarrow> (yaml \<Rightarrow> error + yaml) \<Rightarrow> widget \<Rightarrow> string \<Rightarrow> yaml \<Rightarrow> error + row" where
  "Inputs_generate_row pg es w key val = Inputs_generate_input_row pg es w key val"

fun Inputs_mount_rows ::
  "(string \<Rightarrow> string) \<Rightarrow> (yaml \<Rightarrow> error + yaml) \<Rightarrow> widget \<Rightarrow> (string \<times> yaml) list
     \<Rightarrow> mounted list \<Rightarrow> outcome \<times> mounted list" where
  "Inputs_mount_rows pg es w [] grid = (Returned, grid)"
| "Inputs_mount_rows pg es w ((key, val) # items) grid =
     (if key \<noteq> ''trusted_key_servers'' then
        (case Inputs_generate_row pg es w key val of
           Inl e \<Rightarrow> (Raised e, grid)
         | Inr r \<Rightarrow> Inputs_mount_rows pg es w items (grid @ [Row r]))
      else Inputs_mount_rows pg es w items grid)"

definition Inputs_on_mount ::
  "(string \<Rightarrow> string) \<Rightarrow> (yaml \<Rightarrow> error + yaml) \<Rightarrow> widget \<Rightarrow> outcome \<times> mounted list" where
  "Inputs_on_mount pg es w =
    (if Grid_w \<notin> set (Inputs_compose w) then (Raised NoMatches, [])
     else
       (case (if inputs w \<noteq> [] then Inputs_mount_rows pg es w (inputs w) []
              else (Returned, [])) of
          (Raised e, grid) \<Rightarrow> (Raised e, grid)
        | (Returned, grid) \<Rightarrow>
            if add_fields_button w then (Returned, grid @ [NewFieldButton])
            else (Returned, grid)))"

definition Inputs_input_validation ::
  "(string \<Rightarrow> string list) \<Rightarrow> widget \<Rightarrow> input_changed \<Rightarrow> app_state \<Rightarrow> outcome \<times> app_state" where
  "Inputs_input_validation csl w event s =
    (if is_valid event then
       (let values_path = [''apps'', app_name w, ''init'', ''values''] in
        case getpath (cfg s) values_path of
          Inl e \<Rightarrow> (Raised e, s)
        | Inr parent_yaml \<Rightarrow>
            (let password = input_password event in
             case (if app_name w \<in> set [''metallb'', ''vouch''] \<or> CHR '','' \<in> set (input_value event)
                   then setitem parent_yaml (input_name event)
                          (YSeq (map YStr (csl (input_value event))))
                   else if \<not> password
                        then setitem parent_yaml (input_name event) (YStr (input_value event))
                        else Inr parent_yaml) of
               Inl e \<Rightarrow> (Raised e, s)
             | Inr parent_yaml' \<Rightarrow>
                 (let s1 = s\<lparr>cfg := store_at values_path parent_yaml' (cfg s)\<rparr> in
                  if \<not> input_password event then
                    (Returned, s1\<lparr>effects := effects s1 @ [WriteYaml]\<rparr>)
                  else
                    (let s2 = s1\<lparr>effects := effects s1 @
                                 [Log (''saving special value for '' @ input_name event
                                       @ '' to screen cache'')]\<rparr>
                     in case map_of (sensitive_values s2) (app_name w) of
                          None \<Rightarrow> (Raised (KeyError (app_name w)), s2)
                        | Some cache \<Rightarrow>
                            (Returned,
                             s2\<lparr>sensitive_values :=
                                  AList.update (app_name w)
                                    (AList.update (input_name event) (input_value event) cache)
                                    (sensitive_values s2)\<rparr>)))))
     else
       (let s1 = (if bell_on_error s then s\<lparr>effects := effects s @ [Bell]\<rparr> else s) in
        (Returned,
         s1\<lparr>effects := effects s1 @
              [Notify (join ''\<newline>'' (failure_descriptions event)) ''warning'' warning_title]\<rparr>)))"

definition Inputs_update_base_yaml_for_switch ::
  "widget \<Rightarrow> switch_changed \<Rightarrow> app_state \<Rightarrow> outcome \<times> app_state" where
  "Inputs_update_base_yaml_for_switch w event s =
    (let truthy = switch_value event;
         init_path = [''apps'', app_name w, ''init''] in
     case getpath (cfg s) init_path of
       Inl e \<Rightarrow> (Raised e, s)
     | Inr init \<Rightarrow>
         (case setitem init (switch_name event) (YBool truthy) of
            Inl e \<Rightarrow> (Raised e, s)
          | Inr init' \<Rightarrow>
              (let s1 = s\<lparr>cfg := store_at init_path init' (cfg s)\<rparr>;
                   s2 = s1\<lparr>effects := effects s1 @ [WriteYaml]\<rparr> in
               if truthy \<and> switch_name event = ''create_minio_tenant''
               then (Returned,
                     s2\<lparr>effects := effects s2 @ [Notify recursion_notice ''information'' []]\<rparr>)
               else (Returned, s2))))"

section \<open>Collaborators in other modules\<close>

text \<open>
  The framework's \<^verbatim>\<open>Length(minimum=2)\<close> validator, whose verdict an \<^verbatim>\<open>Input.Changed\<close>
  event carries: a value shorter than two characters fails, with one description
  (the framework's text, a parameter here).
\<close>

definition changed_event :: "string \<Rightarrow> string \<Rightarrow> string \<Rightarrow> bool \<Rightarrow> input_changed" where
  "changed_event description nm v pw =
     \<lparr>input_name = nm, input_value = v, input_password = pw,
      is_valid = (2 \<le> length v),
      failure_descriptions = (if 2 \<le> length v then [] else [description])\<rparr>"

text \<open>Splitting at a separator character, as \<^verbatim>\<open>s.split(sep)\<close> does, and the removal
  of leading and trailing white space, as \<^verbatim>\<open>s.strip()\<close> does on ASCII text.\<close>

fun split_on :: "char \<Rightarrow> string \<Rightarrow> string list" where
  "split_on sep [] = [[]]"
| "split_on sep (c # cs) =
     (if c = sep then [] # split_on sep cs
      else (case split_on sep cs of [] \<Rightarrow> [[c]] | part # parts \<Rightarrow> (c # part) # parts))"

definition whitespace :: "char \<Rightarrow> bool" where
  "whitespace c = (c \<in> set [CHR '' '', CHR 0x09, CHR 0x0A, CHR 0x0B, CHR 0x0C, CHR 0x0D])"

definition trim :: "string \<Rightarrow> string" where
  "trim s = rev (dropWhile whitespace (rev (dropWhile whitespace s)))"

text \<open>
  Modelled from the spec: \<^verbatim>\<open>create_sanitized_list\<close> of \<^verbatim>\<open>smol_k8s_lab.tui.util\<close> is
  not among the sources at hand. The specification says it splits the raw string on
  commas, trims each element and drops the empty elements.
\<close>

definition create_sanitized_list :: "string \<Rightarrow> string list" where
  "create_sanitized_list raw = filter (\<lambda>x. x \<noteq> []) (map trim (split_on CHR '','' raw))"

section \<open>Sample inputs\<close>

text \<open>
  Concrete inputs at which the theorems below are instantiated. The placeholder text and
  the secret extraction are stand-ins for the two helpers that live in other modules;
  the configuration holds one application with an \<^verbatim>\<open>init\<close> section.
\<close>

definition sample_placeholder_grammar :: "string \<Rightarrow> string" where
  "sample_placeholder_grammar label = ''enter '' @ label"

definition sample_extract_secret :: "yaml \<Rightarrow> error + yaml" where
  "sample_extract_secret reference = Inr (YStr ''s3cr3t'')"

definition sample_widget :: "string \<Rightarrow> (string \<times> yaml) list \<Rightarrow> (string \<times> string) list \<Rightarrow> widget" where
  "sample_widget owner ins tips =
     \<lparr>app_name = owner, title = ''init values'', inputs = ins, tooltips = tips,
      add_fields_button = False\<rparr>"

definition sample_values :: "(string \<times> yaml) list" where
  "sample_values = [(''hostname'', YStr ''lab.example.com'')]"

definition sample_init :: "(string \<times> yaml) list" where
  "sample_init = [(''enabled'', YBool True), (''values'', YMap sample_values)]"

definition sample_cfg :: "string \<Rightarrow> yaml" where
  "sample_cfg owner = YMap [(''apps'', YMap [(owner, YMap [(''init'', YMap sample_init)])])]"

definition sample_state :: "string \<Rightarrow> app_state" where
  "sample_state owner =
     \<lparr>cfg = sample_cfg owner, sensitive_values = [(owner, [])], bell_on_error = True,
      effects = []\<rparr>"

definition sample_description :: string where
  "sample_description = ''The value is too short.''"

definition address_pool_edit :: input_changed where
  "address_pool_edit = changed_event sample_description ''address_pool'' ''1.2.3.4,5.6.7.8'' False"

definition short_edit :: input_changed where
  "short_edit = changed_event sample_description ''hostname'' ''a'' False"

definition hello_edit :: input_changed where
  "hello_edit = changed_event sample_description ''hostname'' ''hello'' False"

definition secret_edit :: input_changed where
  "secret_edit = changed_event sample_description ''password'' ''hunter2'' True"

definition comma_secret_edit :: input_changed where
  "comma_secret_edit = changed_event sample_description ''password'' ''hunter,2'' True"

definition minio_switch_on :: switch_changed where
  "minio_switch_on = \<lparr>switch_name = ''create_minio_tenant'', switch_value = True\<rparr>"

definition secret_reference :: yaml where
  "secret_reference = YMap [(''value_from'', YMap [(''env'', YStr ''NEXTCLOUD_PASSWORD'')])]"

definition two_field_inputs :: "(string \<times> yaml) list" where
  "two_field_inputs = [(''hostname'', YStr ''lab.example.com''), (''password'', secret_reference)]"

definition key_server_inputs :: "(string \<times> yaml) list" where
  "key_server_inputs = [(''trusted_key_servers'', YStr ''keys.example.com'')]"

section \<open>Reading back what was stored\<close>

lemma map_of_replace_at:
  "map_of kvs k = Some sub \<Longrightarrow> map_of (replace_at (k # ks) new kvs) k = Some (store_at ks new sub)"
  by (induction kvs) auto

lemma getitem_Inr_iff:
  "getitem doc k = Inr sub \<longleftrightarrow> (\<exists>kvs. doc = YMap kvs \<and> map_of kvs k = Some sub)"
  by (cases doc) (auto split: option.splits)

lemma getpath_store_at:
  "getpath doc ks = Inr old \<Longrightarrow> getpath (store_at ks new doc) ks = Inr new"
proof (induction ks arbitrary: doc old)
  case Nil
  then show ?case by simp
next
  case (Cons k ks)
  from Cons.prems obtain sub where sub: "getitem doc k = Inr sub" and rest: "getpath sub ks = Inr old"
    by (auto split: sum.splits)
  from sub obtain kvs where doc: "doc = YMap kvs" and look: "map_of kvs k = Some sub"
    by (auto simp: getitem_Inr_iff)
  have "getitem (store_at (k # ks) new doc) k = Inr (store_at ks new sub)"
    using doc look by (simp add: map_of_replace_at)
  then show ?case using Cons.IH [OF rest] by simp
qed

lemma getpath_append:
  "getpath doc (ks @ ks') = (case getpath doc ks of Inl e \<Rightarrow> Inl e | Inr sub \<Rightarrow> getpath sub ks')"
  by (induction ks arbitrary: doc) (auto split: sum.splits)

lemma getpath_snoc_store_at:
  assumes "getpath doc ks = Inr old"
  shows "getpath (store_at ks (YMap (AList.update k v kvs)) doc) (ks @ [k]) = Inr v"
  using getpath_store_at [OF assms] by (simp add: getpath_append update_conv')

lemma stored_under_init:
  assumes "getpath doc [a, b, c] = Inr old"
  shows "getpath (store_at [a, b, c] (YMap (AList.update k v kvs)) doc) [a, b, c, k] = Inr v"
  using getpath_snoc_store_at [OF assms, of k v kvs] by simp

lemma stored_under_values:
  assumes "getpath doc [a, b, c, d] = Inr old"
  shows "getpath (store_at [a, b, c, d] (YMap (AList.update k v kvs)) doc) [a, b, c, d, k] = Inr v"
  using getpath_snoc_store_at [OF assms, of k v kvs] by simp

lemma sample_cfg_values:
  "getpath (sample_cfg owner) [''apps'', owner, ''init'', ''values''] = Inr (YMap sample_values)"
  by (simp add: sample_cfg_def sample_init_def)

lemma sample_cfg_init:
  "getpath (sample_cfg owner) [''apps'', owner, ''init''] = Inr (YMap sample_init)"
  by (simp add: sample_cfg_def)

section \<open>Edits of a field\<close>

text \<open>
  C2. A valid edit of a field that is not sensitive, made in a form whose owner is
  \<^verbatim>\<open>metallb\<close> or \<^verbatim>\<open>vouch\<close> or made with a value that contains a comma, stores under
  \<^verbatim>\<open>init.values\<close> of the owner, at the field's name, the list that
  \<^verbatim>\<open>create_sanitized_list\<close> makes of the value (split on commas, each element trimmed,
  empty elements dropped), and asks once for the configuration to be written. Both
  widget classes do so. The configuration is supposed to hold the owner's
  \<^verbatim>\<open>init.values\<close> mapping.
\<close>

theorem list_edit_stores_sanitized_list:
  assumes valid: "is_valid ev" and plain: "\<not> input_password ev"
    and coerce: "app_name w \<in> {''metallb'', ''vouch''} \<or> CHR '','' \<in> set (input_value ev)"
    and doc: "getpath (cfg s) [''apps'', app_name w, ''init'', ''values''] = Inr (YMap vals)"
  shows "\<forall>handler \<in> {Collapsible_input_validation, Inputs_input_validation}.
           (case handler create_sanitized_list w ev s of
              (out, s') \<Rightarrow>
                out = Returned
                \<and> getpath (cfg s') [''apps'', app_name w, ''init'', ''values'', input_name ev]
                    = Inr (YSeq (map YStr (create_sanitized_list (input_value ev))))
                \<and> sensitive_values s' = sensitive_values s
                \<and> effects s' = effects s @ [WriteYaml])"
proof -
  have "app_name w = ''metallb'' \<or> app_name w = ''vouch'' \<or> CHR '','' \<in> set (input_value ev)"
    using coerce by auto
  then show ?thesis
    using valid plain doc stored_under_values [OF doc]
    by (auto simp: Collapsible_input_validation_def Inputs_input_validation_def
             simp del: getpath.simps store_at.simps)
qed

text \<open>The instance of the specification: owner \<^verbatim>\<open>metallb\<close>, input
  \<^verbatim>\<open>1.2.3.4,5.6.7.8\<close>; the list of the two addresses is stored, not the raw string.\<close>

theorem list_edit_stores_sanitized_list_witness:
  "is_valid address_pool_edit
   \<and> \<not> input_password address_pool_edit
   \<and> app_name (sample_widget ''metallb'' [] []) \<in> {''metallb'', ''vouch''}
   \<and> getpath (cfg (sample_state ''metallb'')) [''apps'', ''metallb'', ''init'', ''values'']
       = Inr (YMap sample_values)
   \<and> fst (Collapsible_input_validation create_sanitized_list (sample_widget ''metallb'' [] [])
             address_pool_edit (sample_state ''metallb'')) = Returned
   \<and> getpath (cfg (snd (Collapsible_input_validation create_sanitized_list
                           (sample_widget ''metallb'' [] []) address_pool_edit
                           (sample_state ''metallb'')))) 
         [''apps'', ''metallb'', ''init'', ''values'', ''address_pool'']
       = Inr (YSeq [YStr ''1.2.3.4'', YStr ''5.6.7.8''])
   \<and> effects (snd (Collapsible_input_validation create_sanitized_list
                      (sample_widget ''metallb'' [] []) address_pool_edit
                      (sample_state ''metallb''))) = [WriteYaml]
   \<and> fst (Inputs_input_validation create_sanitized_list (sample_widget ''metallb'' [] [])
             address_pool_edit (sample_state ''metallb'')) = Returned
   \<and> getpath (cfg (snd (Inputs_input_validation create_sanitized_list
                           (sample_widget ''metallb'' [] []) address_pool_edit
                           (sample_state ''metallb''))))
         [''apps'', ''metallb'', ''init'', ''values'', ''address_pool'']
       = Inr (YSeq [YStr ''1.2.3.4'', YStr ''5.6.7.8''])
   \<and> effects (snd (Inputs_input_validation create_sanitized_list
                      (sample_widget ''metallb'' [] []) address_pool_edit
                      (sample_state ''metallb''))) = [WriteYaml]"
proof -
  let ?w = "sample_widget ''metallb'' [] []"
  let ?s = "sample_state ''metallb''"
  have valid: "is_valid address_pool_edit" and plain: "\<not> input_password address_pool_edit"
    by (simp_all add: address_pool_edit_def changed_event_def)
  have coerce: "app_name ?w \<in> {''metallb'', ''vouch''}
                \<or> CHR '','' \<in> set (input_value address_pool_edit)"
    by (simp add: sample_widget_def)
  have doc: "getpath (cfg ?s) [''apps'', app_name ?w, ''init'', ''values''] = Inr (YMap sample_values)"
    using sample_cfg_values [of "''metallb''"] by (simp add: sample_state_def sample_widget_def)
  have list: "create_sanitized_list ''1.2.3.4,5.6.7.8'' = [''1.2.3.4'', ''5.6.7.8'']"
    by (simp add: create_sanitized_list_def trim_def whitespace_def)
  have name: "app_name ?w = ''metallb''" "input_name address_pool_edit = ''address_pool''"
    "input_value address_pool_edit = ''1.2.3.4,5.6.7.8''" "effects ?s = []"
    by (simp_all add: sample_widget_def address_pool_edit_def changed_event_def sample_state_def)
  show ?thesis
    using list_edit_stores_sanitized_list [OF valid plain coerce doc] valid plain doc
    by (simp add: name list split_beta del: getpath.simps)
qed



text \<open>
  C3. An edit whose validation failed changes nothing: the configuration and the
  sensitive values are as before, \<^verbatim>\<open>write_yaml\<close> is not called, one warning whose text
  is the failure descriptions joined by newlines is notified, and the bell rings before
  it exactly when \<^verbatim>\<open>bell_on_error\<close> is set. Both widget classes do so.
\<close>

theorem invalid_edit_changes_nothing:
  assumes invalid: "\<not> is_valid ev"
  shows "\<forall>handler \<in> {Collapsible_input_validation, Inputs_input_validation}.
           (case handler csl w ev s of
              (out, s') \<Rightarrow>
                out = Returned
                \<and> cfg s' = cfg s
                \<and> sensitive_values s' = sensitive_values s
                \<and> effects s' = effects s @ (if bell_on_error s then [Bell] else [])
                     @ [Notify (join ''\<newline>'' (failure_descriptions ev)) ''warning''
                          warning_title])"
  using invalid by (simp add: Collapsible_input_validation_def Inputs_input_validation_def)

text \<open>A value of one character fails the validator; with the bell configured, the bell
  and the warning are the only calls.\<close>

theorem invalid_edit_changes_nothing_witness:
  "\<not> is_valid short_edit
   \<and> fst (Collapsible_input_validation create_sanitized_list (sample_widget ''nextcloud'' [] [])
             short_edit (sample_state ''nextcloud'')) = Returned
   \<and> cfg (snd (Collapsible_input_validation create_sanitized_list
                  (sample_widget ''nextcloud'' [] []) short_edit (sample_state ''nextcloud'')))
       = sample_cfg ''nextcloud''
   \<and> sensitive_values (snd (Collapsible_input_validation create_sanitized_list
                  (sample_widget ''nextcloud'' [] []) short_edit (sample_state ''nextcloud'')))
       = [(''nextcloud'', [])]
   \<and> effects (snd (Collapsible_input_validation create_sanitized_list
                  (sample_widget ''nextcloud'' [] []) short_edit (sample_state ''nextcloud'')))
       = [Bell, Notify sample_description ''warning'' warning_title]
   \<and> fst (Inputs_input_validation create_sanitized_list (sample_widget ''nextcloud'' [] [])
             short_edit (sample_state ''nextcloud'')) = Returned
   \<and> cfg (snd (Inputs_input_validation create_sanitized_list
                  (sample_widget ''nextcloud'' [] []) short_edit (sample_state ''nextcloud'')))
       = sample_cfg ''nextcloud''
   \<and> sensitive_values (snd (Inputs_input_validation create_sanitized_list
                  (sample_widget ''nextcloud'' [] []) short_edit (sample_state ''nextcloud'')))
       = [(''nextcloud'', [])]
   \<and> effects (snd (Inputs_input_validation create_sanitized_list
                  (sample_widget ''nextcloud'' [] []) short_edit (sample_state ''nextcloud'')))
       = [Bell, Notify sample_description ''warning'' warning_title]"
proof -
  let ?s = "sample_state ''nextcloud''"
  have invalid: "\<not> is_valid short_edit"
    by (simp add: short_edit_def changed_event_def)
  have descr: "failure_descriptions short_edit = [sample_description]"
    by (simp add: short_edit_def changed_event_def)
  have state: "bell_on_error ?s" "effects ?s = []" "cfg ?s = sample_cfg ''nextcloud''"
    "sensitive_values ?s = [(''nextcloud'', [])]"
    by (simp_all add: sample_state_def)
  show ?thesis
    using invalid_edit_changes_nothing [OF invalid, where csl = create_sanitized_list
        and w = "sample_widget ''nextcloud'' [] []" and s = ?s] invalid
    by (simp add: descr state split_beta)
qed

text \<open>
  C7. A change of a switch stores the new boolean under \<^verbatim>\<open>init\<close> of the owner, at the
  switch's name, and asks for the configuration to be written; one notice follows when
  the switch is \<^verbatim>\<open>create_minio_tenant\<close> and the new value is true, and nothing follows
  otherwise. Both widget classes do so. The configuration is supposed to hold the
  owner's \<^verbatim>\<open>init\<close> mapping.
\<close>

theorem switch_change_stored_written_and_noticed:
  assumes doc: "getpath (cfg s) [''apps'', app_name w, ''init''] = Inr (YMap init)"
  shows "\<forall>handler \<in> {Collapsible_update_base_yaml_for_switch, Inputs_update_base_yaml_for_switch}.
           (case handler w ev s of
              (out, s') \<Rightarrow>
                out = Returned
                \<and> getpath (cfg s') [''apps'', app_name w, ''init'', switch_name ev]
                    = Inr (YBool (switch_value ev))
                \<and> sensitive_values s' = sensitive_values s
                \<and> effects s' = effects s @ [WriteYaml]
                     @ (if switch_value ev \<and> switch_name ev = ''create_minio_tenant''
                        then [Notify recursion_notice ''information'' []] else []))"
  using doc stored_under_init [OF doc]
  by (simp add: Collapsible_update_base_yaml_for_switch_def Inputs_update_base_yaml_for_switch_def
                Let_def del: getpath.simps store_at.simps)

theorem switch_change_stored_written_and_noticed_witness:
  "getpath (cfg (sample_state ''nextcloud'')) [''apps'', ''nextcloud'', ''init'']
     = Inr (YMap sample_init)
   \<and> fst (Collapsible_update_base_yaml_for_switch (sample_widget ''nextcloud'' [] [])
             minio_switch_on (sample_state ''nextcloud'')) = Returned
   \<and> getpath (cfg (snd (Collapsible_update_base_yaml_for_switch (sample_widget ''nextcloud'' [] [])
                           minio_switch_on (sample_state ''nextcloud''))))
         [''apps'', ''nextcloud'', ''init'', ''create_minio_tenant'']
       = Inr (YBool True)
   \<and> effects (snd (Collapsible_update_base_yaml_for_switch (sample_widget ''nextcloud'' [] [])
                      minio_switch_on (sample_state ''nextcloud'')))
       = [WriteYaml, Notify recursion_notice ''information'' []]
   \<and> fst (Inputs_update_base_yaml_for_switch (sample_widget ''nextcloud'' [] [])
             minio_switch_on (sample_state ''nextcloud'')) = Returned
   \<and> getpath (cfg (snd (Inputs_update_base_yaml_for_switch (sample_widget ''nextcloud'' [] [])
                           minio_switch_on (sample_state ''nextcloud''))))
         [''apps'', ''nextcloud'', ''init'', ''create_minio_tenant'']
       = Inr (YBool True)
   \<and> effects (snd (Inputs_update_base_yaml_for_switch (sample_widget ''nextcloud'' [] [])
                      minio_switch_on (sample_state ''nextcloud'')))
       = [WriteYaml, Notify recursion_notice ''information'' []]"
proof -
  let ?w = "sample_widget ''nextcloud'' [] []"
  let ?s = "sample_state ''nextcloud''"
  have doc: "getpath (cfg ?s) [''apps'', app_name ?w, ''init''] = Inr (YMap sample_init)"
    using sample_cfg_init [of "''nextcloud''"] by (simp add: sample_state_def sample_widget_def)
  have name: "app_name ?w = ''nextcloud''" "switch_name minio_switch_on = ''create_minio_tenant''"
    "switch_value minio_switch_on" "effects ?s = []"
    by (simp_all add: sample_widget_def minio_switch_on_def sample_state_def)
  show ?thesis
    using switch_change_stored_written_and_noticed [OF doc, where ev = minio_switch_on] doc
    by (simp add: name split_beta del: getpath.simps)
qed

section \<open>Building a row\<close>

lemma Input_init_raises:
  "Input_init input_keys = Some e \<Longrightarrow> e = AttributeError \<or> e = TypeError"
  by (auto simp: Input_init_def split: option.splits yaml.splits)

lemma Input_validate_raises:
  "Input_validate validators val = Some e \<Longrightarrow> e = TypeError"
  by (cases val) (auto simp: Input_validate_def split: if_splits)

text \<open>
  C10, as the code has it. In the collapsible widget the construction of a row is not
  total: for a key whose value is absent or empty (false as a condition) and for which
  \<^verbatim>\<open>tooltips\<close> has no entry, \<^verbatim>\<open>input_keys['password']\<close> is read although no branch has
  set it, and the construction ends with KeyError. The flat widget, which starts
  \<^verbatim>\<open>input_keys\<close> with \<^verbatim>\<open>password\<close> false, does not end so from the same arguments, and
  it builds the row when the value is the empty string.
\<close>

theorem collapsible_row_fails_without_value_and_tooltip:
  assumes empty: "\<not> truth val" and no_tip: "map_of (tooltips w) key = None"
  shows "Collapsible_generate_input_row pg es w key val = Inl (KeyError ''password'')
         \<and> Inputs_generate_input_row pg es w key val \<noteq> Inl (KeyError ''password'')
         \<and> (val = YStr [] \<longrightarrow>
              (\<exists>r. Inputs_generate_input_row pg es w key val = Inr r
                   \<and> ik_password (row_input r) = Some False))"
proof (intro conjI impI)
  show "Collapsible_generate_input_row pg es w key val = Inl (KeyError ''password'')"
    using empty no_tip
    by (simp add: Collapsible_generate_input_row_def Let_def Input_init_def)
next
  show "Inputs_generate_input_row pg es w key val \<noteq> Inl (KeyError ''password'')"
    using empty no_tip
    by (auto simp: Inputs_generate_input_row_def Let_def split: option.splits
             dest: Input_init_raises Input_validate_raises)
next
  assume "val = YStr []"
  then show "\<exists>r. Inputs_generate_input_row pg es w key val = Inr r
                 \<and> ik_password (row_input r) = Some False"
    using no_tip
    by (simp add: Inputs_generate_input_row_def Let_def Input_init_def Input_validate_def)
qed

theorem collapsible_row_fails_without_value_and_tooltip_witness:
  "\<not> truth (YStr [])
   \<and> map_of (tooltips (sample_widget ''nextcloud'' [] [])) ''hostname'' = None
   \<and> Collapsible_generate_input_row sample_placeholder_grammar sample_extract_secret
        (sample_widget ''nextcloud'' [] []) ''hostname'' (YStr [])
      = Inl (KeyError ''password'')
   \<and> (\<exists>r. Inputs_generate_input_row sample_placeholder_grammar sample_extract_secret
              (sample_widget ''nextcloud'' [] []) ''hostname'' (YStr []) = Inr r
            \<and> ik_password (row_input r) = Some False)"
proof -
  have empty: "\<not> truth (YStr [])"
    by simp
  have no_tip: "map_of (tooltips (sample_widget ''nextcloud'' [] [])) ''hostname'' = None"
    by (simp add: sample_widget_def)
  show ?thesis
    using collapsible_row_fails_without_value_and_tooltip [OF empty no_tip] no_tip
    by simp
qed

text \<open>The value \<^verbatim>\<open>None\<close> of a key without value: the flat widget passes the lookup of the
  flag and is stopped by \<^verbatim>\<open>input.validate(None)\<close>, which raises TypeError; no row is
  built.\<close>

theorem flat_row_fails_on_absent_value:
  "\<not> truth YNull
   \<and> map_of (tooltips (sample_widget ''nextcloud'' [] [])) ''hostname'' = None
   \<and> Inputs_generate_input_row sample_placeholder_grammar sample_extract_secret
        (sample_widget ''nextcloud'' [] []) ''hostname'' YNull
      = Inl TypeError"
  by (simp add: Inputs_generate_input_row_def Let_def Input_init_def Input_validate_def
                sample_widget_def)

text \<open>
  C5, as the code has it. A non-empty sequence whose first element is a string and whose
  elements are all strings is shown as its elements joined by a comma and a space; a
  sequence whose first element is a sequence of strings is shown as the elements of that
  first inner sequence joined in the same way. The joined string is the value of the
  input and the object that is validated, and the field is not a password field. Both
  widget classes do so.
\<close>

theorem string_sequence_joined_for_display:
  assumes seq: "(\<exists>s rest. xs = YStr s # rest) \<and> str_items xs = Some strs
                \<or> (\<exists>ys rest. xs = YSeq ys # rest \<and> str_items ys = Some strs)"
  shows "\<forall>generate_input_row \<in> {Collapsible_generate_input_row, Inputs_generate_input_row}.
           \<exists>r. generate_input_row pg es w key (YSeq xs) = Inr r
               \<and> ik_value (row_input r) = Some (YStr (join '', '' strs))
               \<and> row_validated r = YStr (join '', '' strs)
               \<and> ik_password (row_input r) = Some False"
  using seq
  by (auto simp: Collapsible_generate_input_row_def Inputs_generate_input_row_def Let_def
                 join_yaml_def Input_init_def Input_validate_def split: option.splits)

theorem string_sequence_joined_for_display_witness:
  "str_items [YStr ''1.2.3.4'', YStr ''5.6.7.8''] = Some [''1.2.3.4'', ''5.6.7.8'']
   \<and> (\<exists>r. Collapsible_generate_input_row sample_placeholder_grammar sample_extract_secret
              (sample_widget ''metallb'' [] []) ''address_pool''
              (YSeq [YStr ''1.2.3.4'', YStr ''5.6.7.8'']) = Inr r
            \<and> ik_value (row_input r) = Some (YStr ''1.2.3.4, 5.6.7.8'')
            \<and> row_validated r = YStr ''1.2.3.4, 5.6.7.8''
            \<and> ik_password (row_input r) = Some False)
   \<and> (\<exists>r. Inputs_generate_input_row sample_placeholder_grammar sample_extract_secret
              (sample_widget ''metallb'' [] []) ''address_pool''
              (YSeq [YStr ''1.2.3.4'', YStr ''5.6.7.8'']) = Inr r
            \<and> ik_value (row_input r) = Some (YStr ''1.2.3.4, 5.6.7.8'')
            \<and> row_validated r = YStr ''1.2.3.4, 5.6.7.8''
            \<and> ik_password (row_input r) = Some False)"
proof -
  let ?xs = "[YStr ''1.2.3.4'', YStr ''5.6.7.8'']"
  have items: "str_items ?xs = Some [''1.2.3.4'', ''5.6.7.8'']"
    by simp
  have seq: "(\<exists>s rest. ?xs = YStr s # rest) \<and> str_items ?xs = Some [''1.2.3.4'', ''5.6.7.8'']
             \<or> (\<exists>ys rest. ?xs = YSeq ys # rest \<and> str_items ys = Some [''1.2.3.4'', ''5.6.7.8''])"
    by simp
  have joined: "join '', '' [''1.2.3.4'', ''5.6.7.8''] = ''1.2.3.4, 5.6.7.8''"
    by simp
  show ?thesis
    using string_sequence_joined_for_display [OF seq, where pg = sample_placeholder_grammar
        and es = sample_extract_secret and w = "sample_widget ''metallb'' [] []"
        and key = "''address_pool''"]
    unfolding joined by (simp add: items del: str_items.simps join.simps)
qed

text \<open>A sequence whose first element is a string and whose second is a number: joining
  raises TypeError in both classes, and no row is built.\<close>

theorem mixed_sequence_builds_no_row:
  "Collapsible_generate_input_row sample_placeholder_grammar sample_extract_secret
     (sample_widget ''nextcloud'' [] []) ''ports'' (YSeq [YStr ''http'', YInt 443])
   = Inl TypeError
   \<and> Inputs_generate_input_row sample_placeholder_grammar sample_extract_secret
       (sample_widget ''nextcloud'' [] []) ''ports'' (YSeq [YStr ''http'', YInt 443])
     = Inl TypeError"
  by (simp add: Collapsible_generate_input_row_def Inputs_generate_input_row_def Let_def
                join_yaml_def)

text \<open>
  C6. A structured secret reference is a mapping that says where the secret is fetched
  from, so it is not empty. When \<^verbatim>\<open>extract_secret\<close> returns the secret, a string, for
  it, the field is a password field and the extracted string is the value of the input
  and the object that is validated. Both widget classes do so.
\<close>

theorem secret_reference_is_password_field:
  assumes nonempty: "m \<noteq> []" and secret: "es (YMap m) = Inr (YStr secret)"
  shows "\<forall>generate_input_row \<in> {Collapsible_generate_input_row, Inputs_generate_input_row}.
           \<exists>r. generate_input_row pg es w key (YMap m) = Inr r
               \<and> ik_password (row_input r) = Some True
               \<and> ik_value (row_input r) = Some (YStr secret)
               \<and> row_validated r = YStr secret"
  using nonempty secret
  by (auto simp: Collapsible_generate_input_row_def Inputs_generate_input_row_def Let_def
                 Input_init_def Input_validate_def
           split: option.splits)

theorem secret_reference_is_password_field_witness:
  "secret_reference = YMap [(''value_from'', YMap [(''env'', YStr ''NEXTCLOUD_PASSWORD'')])]
   \<and> sample_extract_secret secret_reference = Inr (YStr ''s3cr3t'')
   \<and> (\<exists>r. Collapsible_generate_input_row sample_placeholder_grammar sample_extract_secret
              (sample_widget ''nextcloud'' [] []) ''password'' secret_reference = Inr r
            \<and> ik_password (row_input r) = Some True
            \<and> ik_value (row_input r) = Some (YStr ''s3cr3t'')
            \<and> row_validated r = YStr ''s3cr3t'')
   \<and> (\<exists>r. Inputs_generate_input_row sample_placeholder_grammar sample_extract_secret
              (sample_widget ''nextcloud'' [] []) ''password'' secret_reference = Inr r
            \<and> ik_password (row_input r) = Some True
            \<and> ik_value (row_input r) = Some (YStr ''s3cr3t'')
            \<and> row_validated r = YStr ''s3cr3t'')"
proof -
  let ?m = "[(''value_from'', YMap [(''env'', YStr ''NEXTCLOUD_PASSWORD'')])]"
  have ref: "secret_reference = YMap ?m"
    by (simp add: secret_reference_def)
  have nonempty: "?m \<noteq> []"
    by simp
  have secret: "sample_extract_secret (YMap ?m) = Inr (YStr ''s3cr3t'')"
    by (simp add: sample_extract_secret_def)
  show ?thesis
    using secret_reference_is_password_field [where es = sample_extract_secret and m = ?m
        and secret = "''s3cr3t''" and pg = sample_placeholder_grammar
        and w = "sample_widget ''nextcloud'' [] []" and key = "''password''",
        OF nonempty secret] secret
    by (simp add: ref)
qed

lemma case_sum_Inr_E:
  assumes "(case x of Inl e \<Rightarrow> Inl e | Inr p \<Rightarrow> f p) = Inr r"
  obtains p where "x = Inr p" and "f p = Inr r"
  using assms by (cases x) auto

text \<open>
  C8, as the code has it. The tooltip of a row that was built is chosen in this order:
  the entry of \<^verbatim>\<open>tooltips\<close> for the key when there is one and it is not empty; otherwise,
  for a password field, the sentence that names the environment variable made of the
  owner and the key in upper case joined by an underscore; otherwise, for the key
  \<^verbatim>\<open>s3_provider\<close>, the fixed sentence; otherwise the placeholder text followed by a full
  stop. When the owner is \<^verbatim>\<open>metallb\<close> the sentence about DNS entries is appended to
  whichever was chosen. Both widget classes do so.
\<close>

theorem help_text_resolution:
  assumes variant: "generate_input_row \<in> {Collapsible_generate_input_row, Inputs_generate_input_row}"
    and built: "generate_input_row pg es w key val = Inr r"
  shows "row_tooltip r =
          (let generated =
                 (if ik_password (row_input r) = Some True then
                    ''To avoid needing to fill in this value manually, you can export $''
                    @ upper (app_name w) @ ''_'' @ upper key @ '' as an environment variable.''
                  else if key = ''s3_provider'' then
                    ''Choose between minio and seaweedfs for a local s3 provider''
                  else pg (replace_char CHR ''_'' CHR '' '' key) @ ''.'');
               chosen = (case map_of (tooltips w) key of
                           None \<Rightarrow> generated
                         | Some t \<Rightarrow> if t = [] then generated else t)
           in if app_name w = ''metallb''
              then chosen @ '' Be sure the ip addresses you enter already have DNS ''
                          @ ''entries for any apps you'd like to deploy.''
              else chosen)"
proof -
  from variant consider
      (collapsible) "generate_input_row = Collapsible_generate_input_row"
    | (flat) "generate_input_row = Inputs_generate_input_row"
    by auto
  then show ?thesis
  proof cases
    case collapsible
    from built [unfolded collapsible Collapsible_generate_input_row_def Let_def]
    show ?thesis
      apply (rule case_sum_Inr_E)
      apply (thin_tac "_ = Inr _")
      apply (auto split: if_splits option.splits)
      done
  next
    case flat
    from built [unfolded flat Inputs_generate_input_row_def Let_def]
    show ?thesis
      apply (rule case_sum_Inr_E)
      apply (thin_tac "_ = Inr _")
      apply (auto split: if_splits option.splits)
      done
  qed
qed

theorem help_text_resolution_witness:
  "(\<exists>r. Collapsible_generate_input_row sample_placeholder_grammar sample_extract_secret
           (sample_widget ''metallb'' [] []) ''api_token'' secret_reference = Inr r
         \<and> row_tooltip r =
             ''To avoid needing to fill in this value manually, you can export $METALLB_API_TOKEN''
             @ '' as an environment variable. Be sure the ip addresses you enter already have''
             @ '' DNS entries for any apps you'd like to deploy.'')
   \<and> (\<exists>r. Inputs_generate_input_row sample_placeholder_grammar sample_extract_secret
           (sample_widget ''metallb'' [] []) ''api_token'' secret_reference = Inr r
         \<and> row_tooltip r =
             ''To avoid needing to fill in this value manually, you can export $METALLB_API_TOKEN''
             @ '' as an environment variable. Be sure the ip addresses you enter already have''
             @ '' DNS entries for any apps you'd like to deploy.'')"
proof -
  let ?w = "sample_widget ''metallb'' [] []"
  have w: "app_name ?w = ''metallb''" "tooltips ?w = []"
    by (simp_all add: sample_widget_def)
  have up: "upper ''metallb'' = ''METALLB''" "upper ''api_token'' = ''API_TOKEN''"
    by (simp_all add: upper_def upper_char_def)
  have "\<exists>r. Collapsible_generate_input_row sample_placeholder_grammar sample_extract_secret
              ?w ''api_token'' secret_reference = Inr r \<and> ik_password (row_input r) = Some True"
    by (simp add: Collapsible_generate_input_row_def Let_def secret_reference_def
                  sample_extract_secret_def w Input_init_def Input_validate_def)
  then obtain rc where rc: "Collapsible_generate_input_row sample_placeholder_grammar
        sample_extract_secret ?w ''api_token'' secret_reference = Inr rc"
    and pc: "ik_password (row_input rc) = Some True"
    by blast
  have "\<exists>r. Inputs_generate_input_row sample_placeholder_grammar sample_extract_secret
              ?w ''api_token'' secret_reference = Inr r \<and> ik_password (row_input r) = Some True"
    by (simp add: Inputs_generate_input_row_def Let_def secret_reference_def
                  sample_extract_secret_def w Input_init_def Input_validate_def)
  then obtain rf where rf: "Inputs_generate_input_row sample_placeholder_grammar
        sample_extract_secret ?w ''api_token'' secret_reference = Inr rf"
    and pf: "ik_password (row_input rf) = Some True"
    by blast
  have tc: "row_tooltip rc =
             ''To avoid needing to fill in this value manually, you can export $METALLB_API_TOKEN''
             @ '' as an environment variable. Be sure the ip addresses you enter already have''
             @ '' DNS entries for any apps you'd like to deploy.''"
    using help_text_resolution [where generate_input_row = Collapsible_generate_input_row, OF _ rc]
    by (simp add: pc w up)
  have tf: "row_tooltip rf =
             ''To avoid needing to fill in this value manually, you can export $METALLB_API_TOKEN''
             @ '' as an environment variable. Be sure the ip addresses you enter already have''
             @ '' DNS entries for any apps you'd like to deploy.''"
    using help_text_resolution [where generate_input_row = Inputs_generate_input_row, OF _ rf]
    by (simp add: pf w up)
  from rc tc rf tf show ?thesis
    by blast
qed

text \<open>An entry of \<^verbatim>\<open>tooltips\<close> that is the empty string is passed over: the tooltip is
  the placeholder text followed by a full stop.\<close>

theorem empty_tooltip_entry_is_passed_over:
  "map_of (tooltips (sample_widget ''nextcloud'' [] [(''hostname'', [])])) ''hostname'' = Some []
   \<and> map_sum id row_tooltip
        (Collapsible_generate_input_row sample_placeholder_grammar sample_extract_secret
           (sample_widget ''nextcloud'' [] [(''hostname'', [])]) ''hostname''
           (YStr ''lab.example.com''))
      = Inr ''enter hostname.''
   \<and> map_sum id row_tooltip
        (Inputs_generate_input_row sample_placeholder_grammar sample_extract_secret
           (sample_widget ''nextcloud'' [] [(''hostname'', [])]) ''hostname''
           (YStr ''lab.example.com''))
      = Inr ''enter hostname.''"
  by (simp add: Collapsible_generate_input_row_def Inputs_generate_input_row_def Let_def
                Input_init_def Input_validate_def
                sample_widget_def sample_placeholder_grammar_def replace_char_def)

section \<open>Sensitive values\<close>

text \<open>
  C1. The claim is that a valid edit of a sensitive field never writes under
  \<^verbatim>\<open>init.values\<close> of the owner. The code writes there: in a form whose owner is
  \<^verbatim>\<open>metallb\<close>, the edit of the password field \<^verbatim>\<open>password\<close> to \<^verbatim>\<open>hunter2\<close> leaves the
  list made of the secret under \<^verbatim>\<open>init.values.password\<close>, where there was no entry
  before; so does, for the owner \<^verbatim>\<open>nextcloud\<close>, the edit to a value with a comma. The
  assignment of the list is not guarded by the password flag, the assignment of the
  string beside it is. Both widget classes behave so, whatever
  \<^verbatim>\<open>create_sanitized_list\<close> computes.
\<close>

theorem sensitive_edit_written_into_config:
  "getpath (cfg (sample_state ''metallb'')) [''apps'', ''metallb'', ''init'', ''values'', ''password'']
     = Inl (KeyError ''password'')
   \<and> getpath (cfg (snd (Collapsible_input_validation csl (sample_widget ''metallb'' [] [])
                          secret_edit (sample_state ''metallb''))))
        [''apps'', ''metallb'', ''init'', ''values'', ''password'']
      = Inr (YSeq (map YStr (csl ''hunter2'')))
   \<and> getpath (cfg (snd (Inputs_input_validation csl (sample_widget ''metallb'' [] [])
                          secret_edit (sample_state ''metallb''))))
        [''apps'', ''metallb'', ''init'', ''values'', ''password'']
      = Inr (YSeq (map YStr (csl ''hunter2'')))
   \<and> getpath (cfg (snd (Collapsible_input_validation csl (sample_widget ''nextcloud'' [] [])
                          comma_secret_edit (sample_state ''nextcloud''))))
        [''apps'', ''nextcloud'', ''init'', ''values'', ''password'']
      = Inr (YSeq (map YStr (csl ''hunter,2'')))
   \<and> getpath (cfg (snd (Inputs_input_validation csl (sample_widget ''nextcloud'' [] [])
                          comma_secret_edit (sample_state ''nextcloud''))))
        [''apps'', ''nextcloud'', ''init'', ''values'', ''password'']
      = Inr (YSeq (map YStr (csl ''hunter,2'')))"
  by (simp add: Collapsible_input_validation_def Inputs_input_validation_def Let_def
                sample_state_def sample_cfg_def sample_init_def sample_values_def
                sample_widget_def secret_edit_def comma_secret_edit_def changed_event_def)

section \<open>The two widget classes side by side\<close>

lemma generate_input_row_agree:
  assumes "truth val"
  shows "Collapsible_generate_input_row pg es w key val = Inputs_generate_input_row pg es w key val"
proof (cases val)
  case (YSeq xs)
  with assms obtain x rest where xs: "xs = x # rest"
    by (cases xs) auto
  show ?thesis
  proof (cases x)
    case (YStr s)
    then show ?thesis
      unfolding Collapsible_generate_input_row_def Inputs_generate_input_row_def Let_def
        \<open>val = YSeq xs\<close> xs
      by (cases "join_yaml '', '' (YStr s # rest)")
         (simp_all cong: option.case_cong sum.case_cong if_cong
           split del: if_split)
  next
    case (YSeq ys)
    then show ?thesis
      unfolding Collapsible_generate_input_row_def Inputs_generate_input_row_def Let_def
        \<open>val = YSeq xs\<close> xs
      by (cases "join_yaml '', '' ys")
         (simp_all cong: option.case_cong sum.case_cong if_cong
           split del: if_split)
  qed (simp_all add: Collapsible_generate_input_row_def Inputs_generate_input_row_def Let_def
         \<open>val = YSeq xs\<close> xs)
next
  case (YMap m)
  with assms show ?thesis
    unfolding Collapsible_generate_input_row_def Inputs_generate_input_row_def Let_def
    by (cases "es (YMap m)")
       (simp_all cong: option.case_cong sum.case_cong if_cong
           split del: if_split)
qed (use assms in \<open>simp_all add: Collapsible_generate_input_row_def
        Inputs_generate_input_row_def Let_def cong: option.case_cong sum.case_cong if_cong
        split del: if_split\<close>)

lemma mount_rows_agree:
  assumes "\<forall>(key, val) \<in> set items. key \<noteq> ''trusted_key_servers'' \<and> truth val"
  shows "Collapsible_mount_rows pg es w items grid = Inputs_mount_rows pg es w items grid"
  using assms
proof (induction items arbitrary: grid)
  case Nil
  show ?case by simp
next
  case (Cons item items)
  obtain key val where item: "item = (key, val)"
    by (cases item)
  from Cons.prems item have key: "key \<noteq> ''trusted_key_servers''" and val: "truth val"
    and rest: "\<forall>(key, val) \<in> set items. key \<noteq> ''trusted_key_servers'' \<and> truth val"
    by auto
  show ?case
    using key Cons.IH [OF rest] generate_input_row_agree [OF val, of pg es w key]
    by (simp add: item Collapsible_generate_row_def Inputs_generate_row_def split: sum.splits)
qed

lemma input_validation_agree:
  "Collapsible_input_validation csl w ev s = Inputs_input_validation csl w ev s"
  by (simp add: Collapsible_input_validation_def Inputs_input_validation_def)

lemma update_base_yaml_for_switch_agree:
  "Collapsible_update_base_yaml_for_switch w sw s = Inputs_update_base_yaml_for_switch w sw s"
  by (simp add: Collapsible_update_base_yaml_for_switch_def
                Inputs_update_base_yaml_for_switch_def)

text \<open>
  C9, as the code has it. The two change handlers of the collapsible class and of the
  flat class are the same functions of the event and the state. On mount, for inputs
  that are not empty, hold no key \<^verbatim>\<open>trusted_key_servers\<close> and hold only values that are
  true as a condition, both classes mount the same rows in the same order (same
  arguments of the input, same tooltip, same validated object) or raise the same error
  after the same rows.
\<close>

theorem variants_agree:
  assumes nonempty: "inputs w \<noteq> []"
    and keys: "\<forall>(key, val) \<in> set (inputs w). key \<noteq> ''trusted_key_servers'' \<and> truth val"
  shows "Collapsible_on_mount pg es w = Inputs_on_mount pg es w
         \<and> Collapsible_input_validation csl w ev s = Inputs_input_validation csl w ev s
         \<and> Collapsible_update_base_yaml_for_switch w sw s
             = Inputs_update_base_yaml_for_switch w sw s"
  using nonempty mount_rows_agree [OF keys, of pg es w "[]"]
  by (simp add: Collapsible_on_mount_def Inputs_on_mount_def Collapsible_compose_def
                Inputs_compose_def input_validation_agree update_base_yaml_for_switch_agree)

theorem variants_agree_witness:
  "inputs (sample_widget ''nextcloud'' two_field_inputs []) \<noteq> []
   \<and> Collapsible_on_mount sample_placeholder_grammar sample_extract_secret
        (sample_widget ''nextcloud'' two_field_inputs [])
      = Inputs_on_mount sample_placeholder_grammar sample_extract_secret
          (sample_widget ''nextcloud'' two_field_inputs [])
   \<and> length (snd (Inputs_on_mount sample_placeholder_grammar sample_extract_secret
                     (sample_widget ''nextcloud'' two_field_inputs []))) = 2
   \<and> Collapsible_input_validation create_sanitized_list
        (sample_widget ''nextcloud'' two_field_inputs []) hello_edit (sample_state ''nextcloud'')
      = Inputs_input_validation create_sanitized_list
          (sample_widget ''nextcloud'' two_field_inputs []) hello_edit (sample_state ''nextcloud'')
   \<and> Collapsible_update_base_yaml_for_switch
        (sample_widget ''nextcloud'' two_field_inputs []) minio_switch_on (sample_state ''nextcloud'')
      = Inputs_update_base_yaml_for_switch
          (sample_widget ''nextcloud'' two_field_inputs []) minio_switch_on (sample_state ''nextcloud'')"
proof -
  let ?w = "sample_widget ''nextcloud'' two_field_inputs []"
  have nonempty: "inputs ?w \<noteq> []"
    by (simp add: sample_widget_def two_field_inputs_def)
  have keys: "\<forall>(key, val) \<in> set (inputs ?w). key \<noteq> ''trusted_key_servers'' \<and> truth val"
    by (simp add: sample_widget_def two_field_inputs_def secret_reference_def)
  have two: "length (snd (Inputs_on_mount sample_placeholder_grammar sample_extract_secret ?w)) = 2"
    by (simp add: Inputs_on_mount_def Inputs_compose_def Inputs_generate_row_def
                  Inputs_generate_input_row_def Let_def sample_widget_def two_field_inputs_def
                  secret_reference_def sample_extract_secret_def Input_init_def
                  Input_validate_def)
  show ?thesis
    using variants_agree [OF nonempty keys, where pg = sample_placeholder_grammar
        and es = sample_extract_secret and csl = create_sanitized_list and ev = hello_edit
        and s = "sample_state ''nextcloud''" and sw = minio_switch_on] nonempty two
    by simp
qed

text \<open>The key \<^verbatim>\<open>trusted_key_servers\<close>: the collapsible class mounts its row, the flat
  class skips it.\<close>

theorem variants_differ_on_trusted_key_servers:
  "fst (Collapsible_on_mount sample_placeholder_grammar sample_extract_secret
          (sample_widget ''nextcloud'' key_server_inputs [])) = Returned
   \<and> length (snd (Collapsible_on_mount sample_placeholder_grammar sample_extract_secret
                     (sample_widget ''nextcloud'' key_server_inputs []))) = 1
   \<and> Inputs_on_mount sample_placeholder_grammar sample_extract_secret
        (sample_widget ''nextcloud'' key_server_inputs []) = (Returned, [])"
  by (simp add: Collapsible_on_mount_def Inputs_on_mount_def Collapsible_compose_def
                Inputs_compose_def Collapsible_generate_row_def
                Collapsible_generate_input_row_def Let_def sample_widget_def
                key_server_inputs_def Input_init_def Input_validate_def)

end
